theory Spec2Isabelle
  imports Main "HOL-Library.Sublist" "HOL-Library.Word"
begin

section \<open>watchthreads-reorder.c: data model\<close>

text \<open>
  The program is one C file, \<^verbatim>\<open>gdb/testsuite/gdb.threads/watchthreads-reorder.c\<close>.
  It reads \<^verbatim>\<open>/proc\<close> status files, polls mutexes and the monotonic clock, and signals
  its tracer.  Everything it learns from outside (file contents, clock readings, return
  values of library calls) is an input of the model; everything it does to the outside
  (signals, mutex operations) is recorded in an event list.

  A C string is modelled by the list of its characters before the terminating NUL.
  The diagnostics printed on the error stream are kept as constructors carrying the
  arguments of the \<^verbatim>\<open>fprintf\<close> call; the \<^verbatim>\<open>strerror (errno)\<close> text and the progress
  lines on standard output are left out.
\<close>

text \<open>
  \<^verbatim>\<open>LINE_MAX\<close> and \<^verbatim>\<open>LONG_MAX\<close> come from \<^verbatim>\<open>limits.h\<close>, which is not part of the
  repository: they are parameters.
\<close>

record limits =
  LINE_MAX :: nat
  LONG_MAX :: int

datatype diag =
    Timed_out_lock                      \<comment> \<open>line 82\<close>
  | Fopen_failed string string          \<comment> \<open>line 146: filename, line\<close>
  | Fclose_failed string string         \<comment> \<open>line 163: filename, line\<close>
  | Fgets_failed string                 \<comment> \<open>line 172: filename\<close>
  | No_line_found string string         \<comment> \<open>line 175: filename, line\<close>
  | Bad_ulong string string int         \<comment> \<open>line 190: filename, line, retval\<close>
  | Sched_yield_failed                  \<comment> \<open>line 222\<close>
  | Timed_out_state int string string   \<comment> \<open>line 232: process, wanted, state\<close>
  | Must_be_run_by_GDB                  \<comment> \<open>line 285\<close>
  | Parent_must_be_tracer               \<comment> \<open>line 290\<close>

text \<open>
  How a call can end without returning: \<^verbatim>\<open>exit (EXIT_FAILURE)\<close> after a diagnostic, a
  failed \<^verbatim>\<open>assert\<close> (the process aborts), or, for the polling loops, not at all within
  the environment's responses that the model was given.
\<close>

datatype failure =
    Exit_failure diag
  | Assert_failed string
  | Still_running

subsection \<open>Files as the C library presents them\<close>

text \<open>
  A stream that \<^verbatim>\<open>fopen\<close> returned: the bytes it will deliver, how the read after the last
  byte ends (\<open>read_errno = 0\<close>: end of file; otherwise the read fails with that \<^verbatim>\<open>errno\<close>),
  and what \<^verbatim>\<open>fclose\<close> will return.
\<close>

record FILE =
  bytes :: string
  read_errno :: int
  fclose_rc :: int

definition newline :: char where
  "newline = CHR 0x0A"

definition NUL :: char where
  "NUL = CHR 0x00"

text \<open>The C string held by a buffer: the characters before the first NUL.\<close>

definition c_str :: "string \<Rightarrow> string" where
  "c_str buf = takeWhile (\<lambda>c. c \<noteq> NUL) buf"

text \<open>
  \<^verbatim>\<open>fgets (buf, n, f)\<close> after \<^verbatim>\<open>errno = 0\<close>: at most \<open>n - 1\<close> characters, stopping after a
  newline.  \<open>Inl errno\<close> is the null pointer (\<open>errno\<close> still 0 at end of file); \<open>Inr\<close>
  carries the characters stored before the terminator and the stream afterwards.
\<close>

definition fgets :: "nat \<Rightarrow> FILE \<Rightarrow> int + (string \<times> FILE)" where
  "fgets n f =
     (let avail = take (n - 1) (bytes f);
          upto = takeWhile (\<lambda>c. c \<noteq> newline) avail;
          got = (if length upto < length avail then upto @ [newline] else avail)
      in if length upto = length avail \<and> length avail < n - 1
            \<and> (read_errno f \<noteq> 0 \<or> got = [])
         then Inl (read_errno f)
         else Inr (got, f\<lparr>bytes := drop (length got) (bytes f)\<rparr>))"

text \<open>\<^verbatim>\<open>strchr (s, c)\<close> on a C string: the offset of the first \<open>c\<close>, or the null pointer.\<close>

definition strchr :: "string \<Rightarrow> char \<Rightarrow> nat option" where
  "strchr s c = (if c \<in> set s then Some (length (takeWhile (\<lambda>x. x \<noteq> c) s)) else None)"

text \<open>
  Whether \<^verbatim>\<open>strncmp (s1, s2, n)\<close> is 0, on C strings: the first \<open>n\<close> characters agree,
  or both strings end, equal, before that.
\<close>

definition strncmp_is_0 :: "string \<Rightarrow> string \<Rightarrow> nat \<Rightarrow> bool" where
  "strncmp_is_0 s1 s2 n = (take n s1 = take n s2)"

subsection \<open>\<^verbatim>\<open>proc_string\<close> (lines 136-177)\<close>

text \<open>
  The \<^verbatim>\<open>while\<close> loop of lines 150-169, then lines 170-176.  \<open>buf'\<close> is the buffer after
  \<^verbatim>\<open>*s = 0\<close>; the value returned is the C string at \<^verbatim>\<open>&buf[line_len]\<close>.
\<close>

function proc_string_loop :: "nat \<Rightarrow> string \<Rightarrow> string \<Rightarrow> FILE \<Rightarrow> failure + string" where
  "proc_string_loop n filename line f =
     (case fgets n f of
        Inl errno \<Rightarrow>
          (if errno \<noteq> 0 then Inl (Exit_failure (Fgets_failed filename))
           else Inl (Exit_failure (No_line_found filename line)))
      | Inr (buf, f') \<Rightarrow>
          (case strchr (c_str buf) newline of
             None \<Rightarrow> Inl (Assert_failed ''s != NULL'')
           | Some s \<Rightarrow>
               (let buf' = take s (c_str buf) in
                if \<not> strncmp_is_0 buf' line (length line)
                then proc_string_loop n filename line f'
                else if fclose_rc f' \<noteq> 0
                then Inl (Exit_failure (Fclose_failed filename line))
                else Inr (drop (length line) buf'))))"
  by pat_completeness auto
termination
proof (relation "measure (\<lambda>(n, filename, line, f). length (bytes f))")
  show "wf (measure (\<lambda>(n, filename, line, f). length (bytes f)))"
    by simp
next
  fix n :: nat and filename line :: string and f f' :: FILE and x buf s buf'
  assume got: "fgets n f = Inr x" "(buf, f') = x"
    and nl: "strchr (c_str buf) newline = Some s"
  from nl have "newline \<in> set (c_str buf)"
    by (simp add: strchr_def split: if_splits)
  then have "buf \<noteq> []"
    by (auto simp: c_str_def)
  moreover from got have "bytes f' = drop (length buf) (bytes f)" "length buf \<le> length (bytes f)"
    by (auto simp: fgets_def Let_def split: if_splits)
  ultimately show "((n, filename, line, f'), (n, filename, line, f))
      \<in> measure (\<lambda>(n, filename, line, f). length (bytes f))"
    by (cases "bytes f") auto
qed

text \<open>
  The file system at the time of the call answers \<^verbatim>\<open>fopen (filename, "r")\<close>: \<open>None\<close> is
  the null pointer.
\<close>

definition proc_string :: "limits \<Rightarrow> (string \<Rightarrow> FILE option) \<Rightarrow> string \<Rightarrow> string \<Rightarrow> failure + string" where
  "proc_string lim fs filename line =
     (case fs filename of
        None \<Rightarrow> Inl (Exit_failure (Fopen_failed filename line))
      | Some f \<Rightarrow> proc_string_loop (LINE_MAX lim) filename line f)"

subsection \<open>\<^verbatim>\<open>proc_ulong\<close> (lines 179-195)\<close>

text \<open>
  \<^verbatim>\<open>strtol (s, &end, 10)\<close> as the C standard describes it.  The subject sequence is
  optional white space, an optional sign and decimal digits; \<open>str_to_int\<close> gives its
  exact value and the text after it, \<open>None\<close> when there are no digits.
\<close>

definition isspace :: "char \<Rightarrow> bool" where
  "isspace c = (c \<in> set [CHR '' '', CHR 0x09, CHR 0x0A, CHR 0x0B, CHR 0x0C, CHR 0x0D])"

definition isdigit :: "char \<Rightarrow> bool" where
  "isdigit c = (c \<in> set ''0123456789'')"

definition digit_val :: "char \<Rightarrow> int" where
  "digit_val c = int (of_char c) - 48"

definition decimal :: "string \<Rightarrow> int" where
  "decimal ds = foldl (\<lambda>a c. 10 * a + digit_val c) 0 ds"

definition str_to_int :: "string \<Rightarrow> (int \<times> string) option" where
  "str_to_int s =
     (let s1 = dropWhile isspace s;
          neg = (take 1 s1 = ''-'');
          s2 = (if take 1 s1 = ''-'' \<or> take 1 s1 = ''+'' then drop 1 s1 else s1);
          ds = takeWhile isdigit s2
      in if ds = [] then None
         else Some (if neg then - decimal ds else decimal ds, dropWhile isdigit s2))"

text \<open>
  The value is clamped to the range of \<^verbatim>\<open>long\<close> (two's complement, so \<^verbatim>\<open>LONG_MIN\<close> is
  \<open>- LONG_MAX - 1\<close>); without a conversion the result is 0 and \<^verbatim>\<open>end\<close> is the argument.
  The second component is the C string \<^verbatim>\<open>end\<close> points to.
\<close>

definition strtol :: "int \<Rightarrow> string \<Rightarrow> int \<times> string" where
  "strtol long_max s =
     (case str_to_int s of
        None \<Rightarrow> (0, s)
      | Some (v, rest) \<Rightarrow>
          (if v > long_max then long_max
           else if v < - long_max - 1 then - long_max - 1
           else v, rest))"

text \<open>
  \<^verbatim>\<open>end\<close> is never null after the call, so \<^verbatim>\<open>(end && *end)\<close> asks whether text is left.
  The value returned is in \<open>[0, LONG_MAX)\<close>, so the conversion to \<^verbatim>\<open>unsigned long\<close>
  keeps it.
\<close>

definition proc_ulong :: "limits \<Rightarrow> (string \<Rightarrow> FILE option) \<Rightarrow> string \<Rightarrow> string \<Rightarrow> failure + int" where
  "proc_ulong lim fs filename line =
     (case proc_string lim fs filename line of
        Inl e \<Rightarrow> Inl e
      | Inr s \<Rightarrow>
          (case strtol (LONG_MAX lim) s of
             (retval, rest) \<Rightarrow>
               if retval < 0 \<or> retval \<ge> LONG_MAX lim \<or> rest \<noteq> []
               then Inl (Exit_failure (Bad_ulong filename line retval))
               else Inr retval))"

subsection \<open>Text files\<close>

text \<open>
  The text made of the lines \<open>ls\<close>, each ended by a newline, and the lines
  \<^verbatim>\<open>proc_string\<close> can read with a buffer of \<open>n\<close> characters: no newline or NUL inside,
  and room for the newline and the terminator.
\<close>

definition text_of :: "string list \<Rightarrow> string" where
  "text_of ls = concat (map (\<lambda>l. l @ [newline]) ls)"

definition fits :: "nat \<Rightarrow> string \<Rightarrow> bool" where
  "fits n l = (newline \<notin> set l \<and> NUL \<notin> set l \<and> length l + 2 \<le> n)"

section \<open>The environment of one thread\<close>

datatype mutex = gdbstop_mutex | thread1_tid_mutex | thread2_tid_mutex | terminate_mutex

datatype signal = SIGSTOP | SIGCONT

datatype thread = thread1 | thread2

text \<open>
  \<^verbatim>\<open>struct timespec\<close>.  Both fields are 64-bit signed integers (\<^verbatim>\<open>time_t\<close> and \<^verbatim>\<open>long\<close>
  of the 64-bit Linux targets): \<open>sint\<close> reads them, and arithmetic on them wraps
  around.
\<close>

type_synonym time_t = "64 word"

record timespec =
  tv_sec :: time_t
  tv_nsec :: "64 word"

text \<open>
  What the thread does to the outside, in program order.  \<open>State_ok\<close> marks the return
  of \<^verbatim>\<open>state_wait\<close> (line 217); \<open>Store_tracer\<close> is a store to the volatile \<^verbatim>\<open>tracer\<close>.
\<close>

datatype event =
    Locked mutex              \<comment> \<open>\<^verbatim>\<open>pthread_mutex_trylock\<close> returned 0\<close>
  | Unlock mutex              \<comment> \<open>\<^verbatim>\<open>pthread_mutex_unlock\<close> is called\<close>
  | Create thread             \<comment> \<open>\<^verbatim>\<open>pthread_create\<close> is called\<close>
  | Join thread               \<comment> \<open>\<^verbatim>\<open>pthread_join\<close> is called\<close>
  | Kill int signal           \<comment> \<open>\<^verbatim>\<open>kill\<close> is called\<close>
  | Store_tracer int
  | State_ok int string       \<comment> \<open>process, wanted\<close>
  | Atexit_cleanup            \<comment> \<open>\<^verbatim>\<open>atexit (cleanup)\<close>\<close>

text \<open>
  The world as one thread sees it.  The identifiers are what \<^verbatim>\<open>gettid\<close>, \<^verbatim>\<open>getpid\<close> and
  \<^verbatim>\<open>getppid\<close> return.  Each queue holds what the environment will answer, in the order
  the thread asks:
  \<^item> \<open>clock_q\<close>: return value and reading of \<^verbatim>\<open>clock_gettime (CLOCK_MONOTONIC, _)\<close>;
  \<^item> \<open>trylock_q\<close>: return value of \<^verbatim>\<open>pthread_mutex_trylock\<close>;
  \<^item> \<open>rc_q\<close>: return value of \<^verbatim>\<open>pthread_create\<close>, \<^verbatim>\<open>pthread_mutex_unlock\<close>,
    \<^verbatim>\<open>pthread_join\<close>, \<^verbatim>\<open>kill\<close>, \<^verbatim>\<open>sched_yield\<close> and \<^verbatim>\<open>asprintf\<close>;
  \<^item> \<open>fopen_q\<close>: the file system at each \<^verbatim>\<open>fopen\<close>;
  \<^item> \<open>cond_wait_q\<close>: return value of \<^verbatim>\<open>pthread_cond_wait\<close> and the thread identifier
    the worker has published by then.
  A call that finds its queue empty has not returned: the result is \<open>Still_running\<close>.
  \<open>thread1_tid\<close> and \<open>thread2_tid\<close> are the variables as the main thread reads them at
  lines 318 and 326 (0 until the worker has stored its identifier).
\<close>

record world =
  gettid :: int
  getpid :: int
  getppid :: int
  clock_q :: "(int \<times> timespec) list"
  trylock_q :: "int list"
  rc_q :: "int list"
  fopen_q :: "(string \<Rightarrow> FILE option) list"
  cond_wait_q :: "(int \<times> int) list"
  tracer :: int
  thread1_tid :: int
  thread2_tid :: int
  events :: "event list"

definition log :: "event list \<Rightarrow> world \<Rightarrow> world" where
  "log evs w = w\<lparr>events := events w @ evs\<rparr>"

text \<open>Sequencing: a call that did not return ends the thread's run.\<close>

definition and_then ::
  "(failure + 'a) \<times> world \<Rightarrow> ('a \<Rightarrow> world \<Rightarrow> (failure + 'b) \<times> world) \<Rightarrow> (failure + 'b) \<times> world" where
  "and_then r k = (case r of (Inl e, w) \<Rightarrow> (Inl e, w) | (Inr x, w) \<Rightarrow> k x w)"

text \<open>A library call that only reports a status: the call is made, the answer awaited.\<close>

definition lib_call :: "event list \<Rightarrow> world \<Rightarrow> (failure + int) \<times> world" where
  "lib_call evs w =
     (case rc_q w of
        [] \<Rightarrow> (Inl Still_running, log evs w)
      | i # q \<Rightarrow> (Inr i, log evs (w\<lparr>rc_q := q\<rparr>)))"

text \<open>\<^verbatim>\<open>i = call (...); assert (i == 0);\<close>\<close>

definition assert_0 :: "(failure + int) \<times> world \<Rightarrow> (failure + unit) \<times> world" where
  "assert_0 r =
     and_then r (\<lambda>i w. if i = 0 then (Inr (), w) else (Inl (Assert_failed ''i == 0''), w))"

text \<open>\<^verbatim>\<open>EBUSY\<close> comes from \<^verbatim>\<open>errno.h\<close>; this is its value on Linux.\<close>

definition EBUSY :: int where
  "EBUSY = 16"

section \<open>\<^verbatim>\<open>timed_mutex_lock\<close> (lines 33-35 and 61-84)\<close>

definition TIMEOUT :: "world \<Rightarrow> int" where
  "TIMEOUT w = (if gettid w = getpid w then 10 else 15)"

text \<open>
  The \<^verbatim>\<open>do ... while\<close> loop of lines 69-80, then lines 82-83.  The difference of line 80
  is computed in \<^verbatim>\<open>time_t\<close> and compared signed.
\<close>

function timed_mutex_lock_loop :: "mutex \<Rightarrow> timespec \<Rightarrow> world \<Rightarrow> (failure + unit) \<times> world" where
  "timed_mutex_lock_loop mutex start w =
     (case trylock_q w of
        [] \<Rightarrow> (Inl Still_running, w)
      | i # tq \<Rightarrow>
          (if i = 0 then (Inr (), log [Locked mutex] (w\<lparr>trylock_q := tq\<rparr>))
           else if i \<noteq> EBUSY then (Inl (Assert_failed ''i == EBUSY''), w\<lparr>trylock_q := tq\<rparr>)
           else
             (case clock_q w of
                [] \<Rightarrow> (Inl Still_running, w\<lparr>trylock_q := tq\<rparr>)
              | (j, now) # cq \<Rightarrow>
                  (if j \<noteq> 0
                   then (Inl (Assert_failed ''i == 0''), w\<lparr>trylock_q := tq, clock_q := cq\<rparr>)
                   else if \<not> sint (tv_sec now) \<ge> sint (tv_sec start)
                   then (Inl (Assert_failed ''now.tv_sec >= start.tv_sec''),
                         w\<lparr>trylock_q := tq, clock_q := cq\<rparr>)
                   else if sint (tv_sec now - tv_sec start) < TIMEOUT w
                   then timed_mutex_lock_loop mutex start (w\<lparr>trylock_q := tq, clock_q := cq\<rparr>)
                   else (Inl (Exit_failure Timed_out_lock),
                         w\<lparr>trylock_q := tq, clock_q := cq\<rparr>)))))"
  by pat_completeness auto
termination
  by (relation "measure (\<lambda>(mutex, start, w). length (trylock_q w))") auto

definition timed_mutex_lock :: "mutex \<Rightarrow> world \<Rightarrow> (failure + unit) \<times> world" where
  "timed_mutex_lock mutex w =
     (case clock_q w of
        [] \<Rightarrow> (Inl Still_running, w)
      | (i, start) # cq \<Rightarrow>
          (if i \<noteq> 0 then (Inl (Assert_failed ''i == 0''), w\<lparr>clock_q := cq\<rparr>)
           else timed_mutex_lock_loop mutex start (w\<lparr>clock_q := cq\<rparr>)))"

section \<open>\<^verbatim>\<open>state_wait\<close> (lines 197-235)\<close>

text \<open>\<^verbatim>\<open>"%lu"\<close> of an \<^verbatim>\<open>unsigned long\<close>, and the conversion of a \<^verbatim>\<open>pid_t\<close> to that type.\<close>

function show_nat :: "nat \<Rightarrow> string" where
  "show_nat n =
     (if n < 10 then [''0123456789'' ! n]
      else show_nat (n div 10) @ [''0123456789'' ! (n mod 10)])"
  by pat_completeness auto
termination
  by (relation "measure id") auto

definition to_ulong :: "limits \<Rightarrow> int \<Rightarrow> nat" where
  "to_ulong lim x = nat (x mod (2 * (LONG_MAX lim + 1)))"

definition status_filename :: "limits \<Rightarrow> int \<Rightarrow> string" where
  "status_filename lim process = ''/proc/'' @ show_nat (to_ulong lim process) @ ''/status''"

definition State_label :: string where
  "State_label = ''State:'' @ [CHR 0x09]"

text \<open>The \<^verbatim>\<open>do ... while\<close> loop of lines 211-230, then lines 232-234.\<close>

function state_wait_loop ::
  "limits \<Rightarrow> string \<Rightarrow> int \<Rightarrow> string \<Rightarrow> timespec \<Rightarrow> world \<Rightarrow> (failure + unit) \<times> world" where
  "state_wait_loop lim filename process wanted start w =
     (case fopen_q w of
        [] \<Rightarrow> (Inl Still_running, w)
      | fs # fq \<Rightarrow>
          (case proc_string lim fs filename State_label of
             Inl e \<Rightarrow> (Inl e, w\<lparr>fopen_q := fq\<rparr>)
           | Inr state \<Rightarrow>
               (if state = wanted
                then (Inr (), log [State_ok process wanted] (w\<lparr>fopen_q := fq\<rparr>))
                else
                  (case rc_q w of
                     [] \<Rightarrow> (Inl Still_running, w\<lparr>fopen_q := fq\<rparr>)
                   | y # rq \<Rightarrow>
                       (if y \<noteq> 0
                        then (Inl (Exit_failure Sched_yield_failed), w\<lparr>fopen_q := fq, rc_q := rq\<rparr>)
                        else
                          (case clock_q w of
                             [] \<Rightarrow> (Inl Still_running, w\<lparr>fopen_q := fq, rc_q := rq\<rparr>)
                           | (j, now) # cq \<Rightarrow>
                               (if j \<noteq> 0
                                then (Inl (Assert_failed ''i == 0''),
                                      w\<lparr>fopen_q := fq, rc_q := rq, clock_q := cq\<rparr>)
                                else if \<not> sint (tv_sec now) \<ge> sint (tv_sec start)
                                then (Inl (Assert_failed ''now.tv_sec >= start.tv_sec''),
                                      w\<lparr>fopen_q := fq, rc_q := rq, clock_q := cq\<rparr>)
                                else if sint (tv_sec now - tv_sec start) < TIMEOUT w
                                then state_wait_loop lim filename process wanted start
                                       (w\<lparr>fopen_q := fq, rc_q := rq, clock_q := cq\<rparr>)
                                else (Inl (Exit_failure (Timed_out_state process wanted state)),
                                      w\<lparr>fopen_q := fq, rc_q := rq, clock_q := cq\<rparr>))))))))"
  by pat_completeness auto
termination
  by (relation "measure (\<lambda>(lim, filename, process, wanted, start, w). length (fopen_q w))") auto

text \<open>
  Lines 205-209, then the loop.  \<open>rc_q\<close> answers \<^verbatim>\<open>asprintf\<close> (the length of the name,
  or -1).
\<close>

definition state_wait :: "limits \<Rightarrow> int \<Rightarrow> string \<Rightarrow> world \<Rightarrow> (failure + unit) \<times> world" where
  "state_wait lim process wanted w =
     and_then (lib_call [] w) (\<lambda>i w.
       if \<not> i > 0 then (Inl (Assert_failed ''i > 0''), w)
       else
         (case clock_q w of
            [] \<Rightarrow> (Inl Still_running, w)
          | (i, start) # cq \<Rightarrow>
              (if i \<noteq> 0 then (Inl (Assert_failed ''i == 0''), w\<lparr>clock_q := cq\<rparr>)
               else state_wait_loop lim (status_filename lim process) process wanted start
                      (w\<lparr>clock_q := cq\<rparr>))))"

section \<open>\<^verbatim>\<open>cleanup\<close> (lines 237-255)\<close>

definition cleanup :: "world \<Rightarrow> (failure + unit) \<times> world" where
  "cleanup w =
     (if tracer w \<noteq> 0
      then
        (let tracer_save = tracer w in
         assert_0 (lib_call [Kill tracer_save SIGCONT] (log [Store_tracer 0] (w\<lparr>tracer := 0\<rparr>))))
      else (Inr (), w))"

section \<open>\<^verbatim>\<open>main\<close> (lines 257-369)\<close>

text \<open>Lines 261-266: \<open>argv\<close> holds the \<^verbatim>\<open>argc\<close> arguments; the result is \<^verbatim>\<open>standalone\<close>.\<close>

definition main_args :: "string list \<Rightarrow> failure + bool" where
  "main_args argv =
     (if length argv = 2 \<and> argv ! 1 = ''-s'' then Inr True
      else if length argv = 1 then Inr False
      else Inl (Assert_failed ''argc == 1''))"

text \<open>Lines 270-278.\<close>

definition main_startup :: "world \<Rightarrow> (failure + unit) \<times> world" where
  "main_startup w =
     and_then (timed_mutex_lock gdbstop_mutex w) (\<lambda>_ w.
     and_then (timed_mutex_lock terminate_mutex w) (\<lambda>_ w.
     and_then (assert_0 (lib_call [Create thread1] w)) (\<lambda>_ w.
     assert_0 (lib_call [Create thread2] w))))"

text \<open>
  Lines 280-293.  \<^verbatim>\<open>pid_t\<close> is a 32-bit \<^verbatim>\<open>int\<close>: the assignment keeps the low 32 bits of
  the \<^verbatim>\<open>unsigned long\<close>.
\<close>

definition to_pid_t :: "int \<Rightarrow> int" where
  "to_pid_t v = (v + 2 ^ 31) mod 2 ^ 32 - 2 ^ 31"

definition TracerPid_label :: string where
  "TracerPid_label = ''TracerPid:'' @ [CHR 0x09]"

definition main_tracer :: "limits \<Rightarrow> bool \<Rightarrow> world \<Rightarrow> (failure + unit) \<times> world" where
  "main_tracer lim standalone w =
     (if \<not> standalone
      then
        (case fopen_q w of
           [] \<Rightarrow> (Inl Still_running, w)
         | fs # fq \<Rightarrow>
             (case proc_ulong lim fs ''/proc/self/status'' TracerPid_label of
                Inl e \<Rightarrow> (Inl e, w\<lparr>fopen_q := fq\<rparr>)
              | Inr v \<Rightarrow>
                  (let w' = log [Store_tracer (to_pid_t v)] (w\<lparr>fopen_q := fq, tracer := to_pid_t v\<rparr>)
                   in if tracer w' = 0 then (Inl (Exit_failure Must_be_run_by_GDB), w')
                      else if tracer w' \<noteq> getppid w'
                      then (Inl (Exit_failure Parent_must_be_tracer), w')
                      else (Inr (), w'))))
      else (Inr (), w))"

text \<open>Lines 302-307.\<close>

definition main_stop_tracer :: "limits \<Rightarrow> world \<Rightarrow> (failure + unit) \<times> world" where
  "main_stop_tracer lim w =
     (if tracer w \<noteq> 0
      then and_then (assert_0 (lib_call [Kill (tracer w) SIGSTOP] w)) (\<lambda>_ w.
             state_wait lim (tracer w) ''T (stopped)'' w)
      else (Inr (), w))"

text \<open>Lines 318-324 and 326-332.\<close>

definition main_wait_tid1 :: "world \<Rightarrow> (failure + unit) \<times> world" where
  "main_wait_tid1 w =
     (if thread1_tid w = 0
      then
        (case cond_wait_q w of
           [] \<Rightarrow> (Inl Still_running, w)
         | (i, tid) # q \<Rightarrow>
             (let w' = w\<lparr>cond_wait_q := q, thread1_tid := tid\<rparr>
              in if i \<noteq> 0 then (Inl (Assert_failed ''i == 0''), w')
                 else if \<not> thread1_tid w' > 0 then (Inl (Assert_failed ''thread1_tid > 0''), w')
                 else (Inr (), w')))
      else (Inr (), w))"

definition main_wait_tid2 :: "world \<Rightarrow> (failure + unit) \<times> world" where
  "main_wait_tid2 w =
     (if thread2_tid w = 0
      then
        (case cond_wait_q w of
           [] \<Rightarrow> (Inl Still_running, w)
         | (i, tid) # q \<Rightarrow>
             (let w' = w\<lparr>cond_wait_q := q, thread2_tid := tid\<rparr>
              in if i \<noteq> 0 then (Inl (Assert_failed ''i == 0''), w')
                 else if \<not> thread2_tid w' > 0 then (Inl (Assert_failed ''thread2_tid > 0''), w')
                 else (Inr (), w')))
      else (Inr (), w))"

text \<open>Lines 340-347.\<close>

definition main_wait_trapped :: "limits \<Rightarrow> world \<Rightarrow> (failure + unit) \<times> world" where
  "main_wait_trapped lim w =
     (if tracer w \<noteq> 0
      then and_then (state_wait lim (thread1_tid w) ''T (tracing stop)'' w) (\<lambda>_ w.
             state_wait lim (thread2_tid w) ''T (tracing stop)'' w)
      else (Inr (), w))"

text \<open>Lines 300-332: the tracer is stopped, the workers are let go and publish.\<close>

definition main_release :: "limits \<Rightarrow> world \<Rightarrow> (failure + unit) \<times> world" where
  "main_release lim w =
     and_then (main_stop_tracer lim w) (\<lambda>_ w.
     and_then (timed_mutex_lock thread1_tid_mutex w) (\<lambda>_ w.
     and_then (timed_mutex_lock thread2_tid_mutex w) (\<lambda>_ w.
     and_then (assert_0 (lib_call [Unlock gdbstop_mutex] w)) (\<lambda>_ w.
     and_then (main_wait_tid1 w) (\<lambda>_ w.
     main_wait_tid2 w)))))"

text \<open>Lines 349-368; the value is the exit status.\<close>

definition main_finish :: "world \<Rightarrow> (failure + int) \<times> world" where
  "main_finish w =
     and_then (cleanup w) (\<lambda>_ w.
     and_then (assert_0 (lib_call [Unlock terminate_mutex] w)) (\<lambda>_ w.
     and_then (assert_0 (lib_call [Join thread1] w)) (\<lambda>_ w.
     and_then (assert_0 (lib_call [Join thread2] w)) (\<lambda>_ w.
     (Inr 0, w)))))"

text \<open>Lines 300-368, after \<^verbatim>\<open>atexit (cleanup)\<close>.\<close>

definition main_body :: "limits \<Rightarrow> world \<Rightarrow> (failure + int) \<times> world" where
  "main_body lim w =
     and_then (main_release lim w) (\<lambda>_ w.
     and_then (main_wait_trapped lim w) (\<lambda>_ w.
     main_finish w))"

text \<open>
  What \<^verbatim>\<open>exit\<close> does once \<^verbatim>\<open>cleanup\<close> is registered: \<^verbatim>\<open>exit (EXIT_FAILURE)\<close> and the
  return from \<^verbatim>\<open>main\<close> both run the handler; a failed assertion aborts without it.
\<close>

definition at_exit :: "(failure + int) \<times> world \<Rightarrow> (failure + int) \<times> world" where
  "at_exit r =
     (case r of
        (Inl (Exit_failure d), w) \<Rightarrow>
          and_then (cleanup w) (\<lambda>_ w. (Inl (Exit_failure d), w))
      | (Inl e, w) \<Rightarrow> (Inl e, w)
      | (Inr status, w) \<Rightarrow> and_then (cleanup w) (\<lambda>_ w. (Inr status, w)))"

text \<open>
  The whole program.  \<^verbatim>\<open>tracer\<close> is initialised to 0 (line 237) and nothing has
  happened yet.
\<close>

definition main :: "limits \<Rightarrow> string list \<Rightarrow> world \<Rightarrow> (failure + int) \<times> world" where
  "main lim argv w0 =
     (let w = w0\<lparr>tracer := 0, events := []\<rparr> in
      case main_args argv of
        Inl e \<Rightarrow> (Inl e, w)
      | Inr standalone \<Rightarrow>
          and_then (main_startup w) (\<lambda>_ w.
          and_then (main_tracer lim standalone w) (\<lambda>_ w.
          at_exit (main_body lim (log [Atexit_cleanup] w)))))"

section \<open>Concrete inputs\<close>

text \<open>
  The limits of glibc on a 64-bit Linux target, a stream that ends in end-of-file and
  closes, and a status file as \<^verbatim>\<open>/proc\<close> shows it for a process in the given state whose
  tracer is the given process.
\<close>

definition glibc_limits :: limits where
  "glibc_limits = \<lparr>LINE_MAX = 2048, LONG_MAX = 9223372036854775807\<rparr>"

definition regular :: "string \<Rightarrow> FILE" where
  "regular bs = \<lparr>bytes = bs, read_errno = 0, fclose_rc = 0\<rparr>"

definition status_lines :: "string \<Rightarrow> string \<Rightarrow> string list" where
  "status_lines st tp =
     [''Name:'' @ [CHR 0x09] @ ''watchthreads-reorder'',
      State_label @ st,
      ''Tgid:'' @ [CHR 0x09] @ ''5000'',
      TracerPid_label @ tp,
      ''Uid:'' @ [CHR 0x09] @ ''1000'']"

text \<open>A file system with one file.\<close>

definition only_file :: "string \<Rightarrow> FILE \<Rightarrow> string \<Rightarrow> FILE option" where
  "only_file name f = (\<lambda>x. if x = name then Some f else None)"

text \<open>
  A main thread (process 5000, child of 4321) to which the environment has answered
  nothing yet.
\<close>

definition idle_world :: world where
  "idle_world =
     \<lparr>gettid = 5000, getpid = 5000, getppid = 4321,
      clock_q = [], trylock_q = [], rc_q = [], fopen_q = [], cond_wait_q = [],
      tracer = 0, thread1_tid = 0, thread2_tid = 0, events = []\<rparr>"




section \<open>Notions the claims use\<close>

text \<open>How many times \<^verbatim>\<open>kill\<close> was called with the signal.\<close>

fun is_kill :: "signal \<Rightarrow> event \<Rightarrow> bool" where
  "is_kill s (Kill p s') = (s = s')"
| "is_kill s _ = False"

definition signals_sent :: "signal \<Rightarrow> event list \<Rightarrow> nat" where
  "signals_sent s evs = length (filter (is_kill s) evs)"

text \<open>The time between two readings of the clock, in nanoseconds.\<close>

definition elapsed_ns :: "timespec \<Rightarrow> timespec \<Rightarrow> int" where
  "elapsed_ns start now =
     (sint (tv_sec now) - sint (tv_sec start)) * 1000000000
       + (sint (tv_nsec now) - sint (tv_nsec start))"

text \<open>
  What a step leaves alone: the identifiers and the three variables (\<open>unchanged\<close>),
  and whether it only adds events, none of them the unlock of \<^verbatim>\<open>terminate_mutex\<close>
  (\<open>quiet\<close>).
\<close>

definition unchanged :: "world \<Rightarrow> world \<Rightarrow> bool" where
  "unchanged w w' \<longleftrightarrow>
     gettid w' = gettid w \<and> getpid w' = getpid w \<and> getppid w' = getppid w
     \<and> tracer w' = tracer w \<and> thread1_tid w' = thread1_tid w \<and> thread2_tid w' = thread2_tid w"

definition quiet :: "world \<Rightarrow> world \<Rightarrow> bool" where
  "quiet w w' \<longleftrightarrow> (\<exists>evs. events w' = events w @ evs \<and> Unlock terminate_mutex \<notin> set evs)"

definition keeps_tids :: "world \<Rightarrow> world \<Rightarrow> bool" where
  "keeps_tids w w' \<longleftrightarrow>
     thread1_tid w' = thread1_tid w \<and> thread2_tid w' = thread2_tid w
     \<and> (\<exists>evs. events w' = events w @ evs)"

text \<open>The loops are unfolded one iteration at a time, where a proof asks for it.\<close>

declare proc_string_loop.simps [simp del]
declare timed_mutex_lock_loop.simps [simp del]
declare state_wait_loop.simps [simp del]
declare show_nat.simps [simp del]

section \<open>Reading a text file line by line\<close>

lemma takeWhile_line:
  "newline \<notin> set l \<Longrightarrow> takeWhile (\<lambda>c. c \<noteq> newline) (l @ newline # r) = l"
  by (induction l) auto

lemma fgets_line:
  assumes "fits n l"
  shows "fgets n (f\<lparr>bytes := l @ newline # rest\<rparr>) = Inr (l @ [newline], f\<lparr>bytes := rest\<rparr>)"
proof -
  from assms have nl: "newline \<notin> set l" and len: "length l + 2 \<le> n"
    by (simp_all add: fits_def)
  have avail: "take (n - 1) (l @ newline # rest) = l @ newline # take (n - 2 - length l) rest"
    using len by (simp add: take_Cons' numeral_2_eq_2)
  have bs: "bytes (f\<lparr>bytes := l @ newline # rest\<rparr>) = l @ newline # rest"
    by simp
  show ?thesis
    unfolding fgets_def bs avail takeWhile_line [OF nl] Let_def
    by simp
qed

lemma strncmp_is_0_prefix:
  "strncmp_is_0 l line (length line) = prefix line l"
  by (auto simp: strncmp_is_0_def prefix_def take_is_prefix)
    (metis append_eq_conv_conj)

lemma proc_string_loop_line:
  assumes "fits n l"
  shows "proc_string_loop n filename line (f\<lparr>bytes := l @ newline # rest\<rparr>) =
     (if prefix line l
      then (if fclose_rc f \<noteq> 0 then Inl (Exit_failure (Fclose_failed filename line))
            else Inr (drop (length line) l))
      else proc_string_loop n filename line (f\<lparr>bytes := rest\<rparr>))"
proof -
  from assms have nl: "newline \<notin> set l" and nul: "NUL \<notin> set l"
    by (simp_all add: fits_def)
  have cs: "c_str (l @ [newline]) = l @ [newline]"
    using nul by (auto simp add: c_str_def newline_def NUL_def)
  have sc: "strchr (l @ [newline]) newline = Some (length l)"
    using nl by (simp add: strchr_def takeWhile_line)
  show ?thesis
    by (subst proc_string_loop.simps)
      (simp add: fgets_line [OF assms] cs sc strncmp_is_0_prefix)
qed

lemma proc_string_loop_lines:
  assumes "\<forall>l\<in>set ls. fits n l"
  shows "proc_string_loop n filename line (f\<lparr>bytes := text_of ls @ rest\<rparr>) =
     (case find (prefix line) ls of
        Some l \<Rightarrow>
          (if fclose_rc f \<noteq> 0 then Inl (Exit_failure (Fclose_failed filename line))
           else Inr (drop (length line) l))
      | None \<Rightarrow> proc_string_loop n filename line (f\<lparr>bytes := rest\<rparr>))"
  using assms
proof (induction ls)
  case Nil
  then show ?case by (simp add: text_of_def)
next
  case (Cons l ls)
  have "text_of (l # ls) @ rest = l @ newline # (text_of ls @ rest)"
    by (simp add: text_of_def)
  with Cons show ?case
    by (simp add: proc_string_loop_line)
qed

lemma proc_string_loop_end:
  assumes "2 \<le> n"
  shows "proc_string_loop n filename line (f\<lparr>bytes := []\<rparr>) =
     Inl (Exit_failure (if read_errno f \<noteq> 0 then Fgets_failed filename
                        else No_line_found filename line))"
  using assms by (subst proc_string_loop.simps) (simp add: fgets_def)

lemma fgets_no_newline:
  assumes "newline \<notin> set (take (n - 1) (bytes f))"
    and "n - 1 \<le> length (bytes f) \<or> (bytes f \<noteq> [] \<and> read_errno f = 0)"
  shows "\<exists>f'. fgets n f = Inr (take (n - 1) (bytes f), f')"
proof -
  define avail where "avail = take (n - 1) (bytes f)"
  have tw: "takeWhile (\<lambda>c. c \<noteq> newline) avail = avail"
    using assms(1) unfolding avail_def by auto
  have "\<not> (length avail < n - 1 \<and> (read_errno f \<noteq> 0 \<or> avail = []))"
  proof
    assume a: "length avail < n - 1 \<and> (read_errno f \<noteq> 0 \<or> avail = [])"
    then have "length avail < n - 1"
      by blast
    then have "length (bytes f) < n - 1"
      unfolding avail_def by (simp add: min_def split: if_splits)
    with assms(2) have "bytes f \<noteq> []" "read_errno f = 0"
      by simp_all
    moreover from \<open>length (bytes f) < n - 1\<close> have "avail = bytes f"
      unfolding avail_def by simp
    ultimately show False
      using a by simp
  qed
  then show ?thesis
    unfolding fgets_def Let_def avail_def [symmetric] tw by simp
qed

lemma proc_string_loop_no_newline:
  assumes "newline \<notin> set (take (n - 1) (bytes f))"
    and "n - 1 \<le> length (bytes f) \<or> (bytes f \<noteq> [] \<and> read_errno f = 0)"
  shows "proc_string_loop n filename line f = Inl (Assert_failed ''s != NULL'')"
proof -
  from fgets_no_newline [OF assms]
  obtain f' where "fgets n f = Inr (take (n - 1) (bytes f), f')" ..
  moreover have "strchr (c_str (take (n - 1) (bytes f))) newline = None"
    using assms(1) by (auto simp: strchr_def c_str_def dest: set_takeWhileD)
  ultimately show ?thesis
    by (subst proc_string_loop.simps) simp
qed

lemma proc_string_text:
  assumes "fs filename = Some f" and "bytes f = text_of ls @ rest"
    and "\<forall>l\<in>set ls. fits (LINE_MAX lim) l"
  shows "proc_string lim fs filename line =
     (case find (prefix line) ls of
        Some l \<Rightarrow>
          (if fclose_rc f \<noteq> 0 then Inl (Exit_failure (Fclose_failed filename line))
           else Inr (drop (length line) l))
      | None \<Rightarrow> proc_string_loop (LINE_MAX lim) filename line (f\<lparr>bytes := rest\<rparr>))"
proof -
  have "f = f\<lparr>bytes := text_of ls @ rest\<rparr>"
    using assms(2) by simp
  then have "proc_string lim fs filename line
      = proc_string_loop (LINE_MAX lim) filename line (f\<lparr>bytes := text_of ls @ rest\<rparr>)"
    using assms(1) by (simp add: proc_string_def)
  then show ?thesis
    using assms(3) by (simp only: proc_string_loop_lines)
qed

lemma find_first:
  "\<forall>l\<in>set ls. \<not> P l \<Longrightarrow> P x \<Longrightarrow> find P (ls @ x # ys) = Some x"
  by (induction ls) auto

lemma find_none:
  "\<forall>l\<in>set ls. \<not> P l \<Longrightarrow> find P ls = None"
  by (induction ls) auto

lemma proc_string_first_match:
  assumes "fs filename = Some f" and "bytes f = text_of (ls @ [line @ v]) @ rest"
    and "\<forall>l\<in>set ls. fits (LINE_MAX lim) l \<and> \<not> prefix line l"
    and "fits (LINE_MAX lim) (line @ v)" and "fclose_rc f = 0"
  shows "proc_string lim fs filename line = Inr v"
proof -
  have "find (prefix line) (ls @ [line @ v]) = Some (line @ v)"
    using assms(3) by (simp add: find_first)
  moreover have "\<forall>l\<in>set (ls @ [line @ v]). fits (LINE_MAX lim) l"
    using assms(3,4) by auto
  ultimately show ?thesis
    using proc_string_text [where fs = fs and filename = filename and f = f
        and ls = "ls @ [line @ v]" and rest = rest and lim = lim and line = line] assms(1,2,5)
    by simp
qed


section \<open>Polling a contended lock\<close>

lemma TIMEOUT_frame [simp]:
  "TIMEOUT (w\<lparr>trylock_q := tq\<rparr>) = TIMEOUT w"
  "TIMEOUT (w\<lparr>clock_q := cq\<rparr>) = TIMEOUT w"
  "TIMEOUT (w\<lparr>rc_q := rq\<rparr>) = TIMEOUT w"
  "TIMEOUT (w\<lparr>fopen_q := fq\<rparr>) = TIMEOUT w"
  by (simp_all add: TIMEOUT_def)

text \<open>Without overflow the difference of line 80 is the difference of the readings.\<close>

lemma sint_diff_exact:
  fixes a b :: time_t
  assumes "- (2 ^ 63) \<le> sint a - sint b" and "sint a - sint b < 2 ^ 63"
  shows "sint (a - b) = sint a - sint b"
  using assms by (simp add: sint_word_diff signed_take_bit_int_eq_self)

lemma timed_mutex_lock_loop_contended:
  assumes "clock_q w = map (Pair 0) (early @ [late]) @ cq"
    and "trylock_q w = replicate (length early + 1) EBUSY @ tq"
    and "\<forall>t\<in>set early. sint (tv_sec start) \<le> sint (tv_sec t)
           \<and> sint (tv_sec t - tv_sec start) < TIMEOUT w"
    and "sint (tv_sec start) \<le> sint (tv_sec late)"
    and "TIMEOUT w \<le> sint (tv_sec late - tv_sec start)"
  shows "timed_mutex_lock_loop mutex start w =
     (Inl (Exit_failure Timed_out_lock), w\<lparr>trylock_q := tq, clock_q := cq\<rparr>)"
  using assms
proof (induction early arbitrary: w)
  case Nil
  then show ?case
    by (subst timed_mutex_lock_loop.simps) (simp add: EBUSY_def)
next
  case (Cons t early)
  let ?w = "w\<lparr>trylock_q := replicate (length early + 1) EBUSY @ tq,
               clock_q := map (Pair 0) (early @ [late]) @ cq\<rparr>"
  have "timed_mutex_lock_loop mutex start w = timed_mutex_lock_loop mutex start ?w"
    using Cons.prems by (subst timed_mutex_lock_loop.simps) (simp add: EBUSY_def)
  also have "\<dots> = (Inl (Exit_failure Timed_out_lock), ?w\<lparr>trylock_q := tq, clock_q := cq\<rparr>)"
    using Cons.prems by (intro Cons.IH) simp_all
  finally show ?case
    by simp
qed

section \<open>What each step of the main thread changes\<close>

lemma and_thenE:
  assumes "and_then r k = (res, w')"
  obtains (failed) e where "r = (Inl e, w')" and "res = Inl e"
  | (returned) x w1 where "r = (Inr x, w1)" and "k x w1 = (res, w')"
  using assms by (cases r; cases "fst r") (auto simp: and_then_def)

lemma unchanged_refl [simp]: "unchanged w w"
  by (simp add: unchanged_def)


lemma quiet_refl [simp]: "quiet w w"
  by (simp add: quiet_def)





lemma unchanged_upd [simp]:
  "unchanged w (w'\<lparr>trylock_q := tq\<rparr>) = unchanged w w'"
  "unchanged w (w'\<lparr>clock_q := cq\<rparr>) = unchanged w w'"
  "unchanged w (w'\<lparr>rc_q := rq\<rparr>) = unchanged w w'"
  "unchanged w (w'\<lparr>fopen_q := fq\<rparr>) = unchanged w w'"
  "unchanged w (w'\<lparr>events := evs\<rparr>) = unchanged w w'"
  "unchanged (w\<lparr>trylock_q := tq\<rparr>) w' = unchanged w w'"
  "unchanged (w\<lparr>clock_q := cq\<rparr>) w' = unchanged w w'"
  "unchanged (w\<lparr>rc_q := rq\<rparr>) w' = unchanged w w'"
  "unchanged (w\<lparr>fopen_q := fq\<rparr>) w' = unchanged w w'"
  "unchanged (w\<lparr>events := evs\<rparr>) w' = unchanged w w'"
  by (simp_all add: unchanged_def)















lemma keeps_tids_refl [simp]: "keeps_tids w w"
  by (simp add: keeps_tids_def)











text \<open>
  \<^verbatim>\<open>state_wait\<close> returns only after a read of the status file of the process that
  showed the wanted state.
\<close>

lemma state_wait_loop_confirms:
  "fst (state_wait_loop lim filename process wanted start w) = Inr ()
    \<longrightarrow> (\<exists>fs\<in>set (fopen_q w). proc_string lim fs filename State_label = Inr wanted)"
proof (induction lim filename process wanted start w rule: state_wait_loop.induct)
  case (1 lim filename process wanted start w)
  show ?case
    apply (simp only: state_wait_loop.simps [of lim filename process wanted start w])
    apply (simp add: log_def split: list.split sum.split)
    apply (intro allI impI conjI)
    using "1.IH" apply simp_all
    done
qed

lemma state_wait_confirms:
  assumes "state_wait lim process wanted w = (Inr (), w')"
  shows "\<exists>fs\<in>set (fopen_q w).
           proc_string lim fs (status_filename lim process) State_label = Inr wanted"
  using assms unfolding state_wait_def
proof (cases rule: and_thenE)
  case (failed e)
  then show ?thesis
    by simp
next
  case (returned i w1)
  from returned(1) have same: "fopen_q w1 = fopen_q w"
    by (auto simp: lib_call_def log_def split: list.splits)
  from returned(2) obtain j start cq
    where "clock_q w1 = (j, start) # cq"
      and "state_wait_loop lim (status_filename lim process) process wanted start
             (w1\<lparr>clock_q := cq\<rparr>) = (Inr (), w')"
    by (cases "clock_q w1") (auto split: if_splits)
  then have "fst (state_wait_loop lim (status_filename lim process) process wanted start
             (w1\<lparr>clock_q := cq\<rparr>)) = Inr ()"
    by simp
  with state_wait_loop_confirms [of lim "status_filename lim process" process wanted start
      "w1\<lparr>clock_q := cq\<rparr>"] same
  show ?thesis
    by simp
qed




section \<open>The traced run, step by step\<close>






















section \<open>The claims\<close>




text \<open>
  Claim C4, as stated: on a matched line \<^verbatim>\<open>proc_ulong\<close> fails when the value is negative,
  the parse overflows or text follows the number, and otherwise returns the value.  The
  text \<^verbatim>\<open>9223372036854775807\<close> is \<^verbatim>\<open>LONG_MAX\<close> on a 64-bit target: it is not negative, it
  does not overflow and nothing follows it, yet \<^verbatim>\<open>proc_ulong\<close> exits, because line 188
  tests \<^verbatim>\<open>retval >= LONG_MAX\<close>.
\<close>

theorem proc_ulong_LONG_MAX_counterexample:
  "str_to_int ''9223372036854775807'' = Some (LONG_MAX glibc_limits, [])
   \<and> proc_ulong glibc_limits
       (only_file ''/proc/self/status''
          (regular (text_of (status_lines ''R (running)'' ''9223372036854775807''))))
       ''/proc/self/status'' TracerPid_label
       = Inl (Exit_failure
               (Bad_ulong ''/proc/self/status'' TracerPid_label 9223372036854775807))"
proof -
  have s: "str_to_int ''9223372036854775807'' = Some (9223372036854775807, [])"
    by (simp add: str_to_int_def isspace_def isdigit_def decimal_def digit_val_def)
  have "proc_string glibc_limits
       (only_file ''/proc/self/status''
          (regular (text_of (status_lines ''R (running)'' ''9223372036854775807''))))
       ''/proc/self/status'' TracerPid_label = Inr ''9223372036854775807''"
    using proc_string_first_match
      [where fs = "only_file ''/proc/self/status''
          (regular (text_of (status_lines ''R (running)'' ''9223372036854775807'')))"
        and filename = "''/proc/self/status''"
        and f = "regular (text_of (status_lines ''R (running)'' ''9223372036854775807''))"
        and ls = "take 3 (status_lines ''R (running)'' ''9223372036854775807'')"
        and line = TracerPid_label and v = "''9223372036854775807''"
        and rest = "text_of (drop 4 (status_lines ''R (running)'' ''9223372036854775807''))"
        and lim = glibc_limits]
    by (simp add: only_file_def regular_def status_lines_def glibc_limits_def text_of_def
        fits_def TracerPid_label_def State_label_def newline_def NUL_def)
  then show ?thesis
    using s by (simp add: proc_ulong_def strtol_def glibc_limits_def)
qed

text \<open>
  Claim C4, amended.  On a matched line with remainder \<open>s\<close>, \<^verbatim>\<open>proc_ulong\<close> exits with
  the diagnostic of line 190 when the decimal value of \<open>s\<close> is negative, is \<^verbatim>\<open>LONG_MAX\<close>
  or more (every overflow, and \<^verbatim>\<open>LONG_MAX\<close> itself), or text is left after the number;
  otherwise it returns the value.  With no digits the value is 0 and all of \<open>s\<close> is
  left: an empty remainder returns 0, any other exits.
\<close>

theorem proc_ulong_parses:
  assumes "proc_string lim fs filename line = Inr s"
    and "0 < LONG_MAX lim"
  shows "proc_ulong lim fs filename line =
     (case str_to_int s of
        None \<Rightarrow>
          (if s = [] then Inr 0 else Inl (Exit_failure (Bad_ulong filename line 0)))
      | Some (v, rest) \<Rightarrow>
          (if v < 0 \<or> LONG_MAX lim \<le> v \<or> rest \<noteq> []
           then Inl (Exit_failure (Bad_ulong filename line (fst (strtol (LONG_MAX lim) s))))
           else Inr v))"
  using assms by (auto simp: proc_ulong_def strtol_def split: option.splits)

theorem proc_ulong_parses_witness:
  "proc_ulong glibc_limits
     (only_file ''/proc/self/status'' (regular (text_of (status_lines ''R (running)'' ''4321''))))
     ''/proc/self/status'' TracerPid_label = Inr 4321"
proof -
  have "proc_string glibc_limits
     (only_file ''/proc/self/status'' (regular (text_of (status_lines ''R (running)'' ''4321''))))
     ''/proc/self/status'' TracerPid_label = Inr ''4321''"
    using proc_string_first_match
      [where fs = "only_file ''/proc/self/status''
          (regular (text_of (status_lines ''R (running)'' ''4321'')))"
        and filename = "''/proc/self/status''"
        and f = "regular (text_of (status_lines ''R (running)'' ''4321''))"
        and ls = "take 3 (status_lines ''R (running)'' ''4321'')"
        and line = TracerPid_label and v = "''4321''"
        and rest = "text_of (drop 4 (status_lines ''R (running)'' ''4321''))"
        and lim = glibc_limits]
    by (simp add: only_file_def regular_def status_lines_def glibc_limits_def text_of_def
        fits_def TracerPid_label_def State_label_def newline_def NUL_def)
  moreover have "str_to_int ''4321'' = Some (4321, [])"
    by (simp add: str_to_int_def isspace_def isdigit_def decimal_def digit_val_def)
  ultimately show ?thesis
    using proc_ulong_parses [of glibc_limits _ "''/proc/self/status''" TracerPid_label "''4321''"]
    by (simp add: glibc_limits_def)
qed

text \<open>
  Claim C5, as stated: \<^verbatim>\<open>proc_string\<close> returns the remainder of the first line with the
  prefix, and exits exactly when the file cannot be opened, a read error occurs or no
  line matches.  Two inputs contradict it.  A file that opens, reads without error and
  has a matching line, but whose \<^verbatim>\<open>fclose\<close> fails, makes it exit (lines 161-166).  A file
  whose only line matches but has no newline makes it abort on the assertion of line
  155: nothing is returned and no diagnostic of \<^verbatim>\<open>proc_string\<close> is printed.
\<close>

theorem proc_string_fclose_counterexample:
  "only_file ''/proc/1/status''
       \<lparr>bytes = text_of (status_lines ''S (sleeping)'' ''0''), read_errno = 0, fclose_rc = - 1\<rparr>
       ''/proc/1/status'' \<noteq> None
   \<and> find (prefix State_label) (status_lines ''S (sleeping)'' ''0'')
       = Some (State_label @ ''S (sleeping)'')
   \<and> proc_string glibc_limits
       (only_file ''/proc/1/status''
         \<lparr>bytes = text_of (status_lines ''S (sleeping)'' ''0''), read_errno = 0, fclose_rc = - 1\<rparr>)
       ''/proc/1/status'' State_label
       = Inl (Exit_failure (Fclose_failed ''/proc/1/status'' State_label))
   \<and> proc_string glibc_limits
       (only_file ''/proc/1/status'' (regular (State_label @ ''S (sleeping)'')))
       ''/proc/1/status'' State_label
       = Inl (Assert_failed ''s != NULL'')"
proof -
  have fit: "\<forall>l\<in>set (status_lines ''S (sleeping)'' ''0''). fits (LINE_MAX glibc_limits) l"
    by (simp add: status_lines_def fits_def glibc_limits_def TracerPid_label_def State_label_def
        newline_def NUL_def)
  have found: "find (prefix State_label) (status_lines ''S (sleeping)'' ''0'')
       = Some (State_label @ ''S (sleeping)'')"
    by (simp add: status_lines_def State_label_def)
  have "proc_string glibc_limits
       (only_file ''/proc/1/status''
         \<lparr>bytes = text_of (status_lines ''S (sleeping)'' ''0''), read_errno = 0, fclose_rc = - 1\<rparr>)
       ''/proc/1/status'' State_label
       = Inl (Exit_failure (Fclose_failed ''/proc/1/status'' State_label))"
    using proc_string_text [where fs = "only_file ''/proc/1/status''
         \<lparr>bytes = text_of (status_lines ''S (sleeping)'' ''0''), read_errno = 0, fclose_rc = - 1\<rparr>"
        and filename = "''/proc/1/status''" and ls = "status_lines ''S (sleeping)'' ''0''"
        and rest = "[]" and lim = glibc_limits and line = State_label
        and f = "\<lparr>bytes = text_of (status_lines ''S (sleeping)'' ''0''), read_errno = 0, fclose_rc = - 1\<rparr>"]
      fit found
    by (simp add: only_file_def)
  moreover have "proc_string glibc_limits
       (only_file ''/proc/1/status'' (regular (State_label @ ''S (sleeping)'')))
       ''/proc/1/status'' State_label
       = Inl (Assert_failed ''s != NULL'')"
    by (simp add: proc_string_def only_file_def regular_def glibc_limits_def
        proc_string_loop_no_newline State_label_def newline_def)
  ultimately show ?thesis
    using found by (simp add: only_file_def)
qed

text \<open>
  Claim C5, amended.  For a file whose lines all end in a newline, hold no NUL and are
  shorter than \<^verbatim>\<open>LINE_MAX\<close> - 1 characters, \<^verbatim>\<open>proc_string\<close> returns the remainder of the
  first line that begins with the prefix, newline stripped.  It exits with a diagnostic
  exactly when the file cannot be opened, when no line begins with the prefix (the
  stream then ends in a read error or in end-of-file), or when closing the file after
  the match fails.
\<close>

theorem proc_string_on_text_file:
  assumes "\<forall>f. fs filename = Some f \<longrightarrow> bytes f = text_of ls"
    and "\<forall>l\<in>set ls. fits (LINE_MAX lim) l"
    and "2 \<le> LINE_MAX lim"
  shows "proc_string lim fs filename line =
     (case fs filename of
        None \<Rightarrow> Inl (Exit_failure (Fopen_failed filename line))
      | Some f \<Rightarrow>
          (case find (prefix line) ls of
             Some l \<Rightarrow>
               (if fclose_rc f \<noteq> 0 then Inl (Exit_failure (Fclose_failed filename line))
                else Inr (drop (length line) l))
           | None \<Rightarrow>
               Inl (Exit_failure (if read_errno f \<noteq> 0 then Fgets_failed filename
                                  else No_line_found filename line))))"
proof (cases "fs filename")
  case None
  then show ?thesis
    by (simp add: proc_string_def)
next
  case (Some f)
  with assms(1) have "bytes f = text_of ls @ []"
    by simp
  from proc_string_text [where fs = fs and filename = filename and f = f and ls = ls
      and rest = "[]" and lim = lim and line = line, OF Some this assms(2)]
  show ?thesis
    using Some assms(3) by (simp add: proc_string_loop_end split: option.splits)
qed

theorem proc_string_on_text_file_witness:
  "proc_string glibc_limits
     (only_file ''/proc/1/status'' (regular (text_of (status_lines ''S (sleeping)'' ''0''))))
     ''/proc/1/status'' State_label = Inr ''S (sleeping)''"
  using proc_string_on_text_file
    [of "only_file ''/proc/1/status'' (regular (text_of (status_lines ''S (sleeping)'' ''0'')))"
        "''/proc/1/status''" "status_lines ''S (sleeping)'' ''0''" glibc_limits State_label]
  by (simp add: only_file_def regular_def status_lines_def glibc_limits_def
      fits_def TracerPid_label_def State_label_def newline_def NUL_def)

text \<open>
  Claim C9.  When the line that \<^verbatim>\<open>proc_string\<close> matches consists of exactly the label, so
  that the remainder it returns is empty, \<^verbatim>\<open>proc_ulong\<close> returns 0: \<^verbatim>\<open>strtol\<close> converts
  nothing, returns 0 and leaves \<^verbatim>\<open>end\<close> at the terminator, so no test of line 188
  fires.  (\<^verbatim>\<open>LONG_MAX\<close> is positive in every C implementation.)
\<close>

theorem proc_ulong_empty_remainder:
  assumes "proc_string lim fs filename line = Inr []"
    and "0 < LONG_MAX lim"
  shows "proc_ulong lim fs filename line = Inr 0"
proof -
  have "strtol (LONG_MAX lim) [] = (0, [])"
    by (simp add: strtol_def str_to_int_def)
  with assms show ?thesis
    by (simp add: proc_ulong_def)
qed

theorem proc_ulong_empty_remainder_witness:
  "proc_ulong glibc_limits
     (only_file ''/proc/self/status'' (regular (text_of (status_lines ''R (running)'' ''''))))
     ''/proc/self/status'' TracerPid_label = Inr 0"
proof -
  have "proc_string glibc_limits
     (only_file ''/proc/self/status'' (regular (text_of (status_lines ''R (running)'' ''''))))
     ''/proc/self/status'' TracerPid_label = Inr []"
    using proc_string_first_match
      [where fs = "only_file ''/proc/self/status''
          (regular (text_of (status_lines ''R (running)'' '''')))"
        and filename = "''/proc/self/status''"
        and f = "regular (text_of (status_lines ''R (running)'' ''''))"
        and ls = "take 3 (status_lines ''R (running)'' '''')"
        and line = TracerPid_label and v = "[]"
        and rest = "text_of (drop 4 (status_lines ''R (running)'' ''''))"
        and lim = glibc_limits]
    by (simp add: only_file_def regular_def status_lines_def glibc_limits_def text_of_def
        fits_def TracerPid_label_def State_label_def newline_def NUL_def)
  from proc_ulong_empty_remainder [OF this] show ?thesis
    by (simp add: glibc_limits_def)
qed

text \<open>
  Claim C10, as stated: if the last line of the file lacks a newline, or any line is at
  least \<^verbatim>\<open>LINE_MAX\<close> - 1 characters long, the assertion of line 155 fails.  It does not
  when a matching line comes first: \<^verbatim>\<open>proc_string\<close> returns at line 168 and never reads
  the line without a newline.
\<close>

theorem proc_string_early_return_counterexample:
  "last (text_of [TracerPid_label @ ''4321''] @ ''Uid:'') \<noteq> newline
   \<and> proc_string glibc_limits
       (only_file ''/proc/self/status'' (regular (text_of [TracerPid_label @ ''4321''] @ ''Uid:'')))
       ''/proc/self/status'' TracerPid_label
       = Inr ''4321''"
  using proc_string_first_match
    [where fs = "only_file ''/proc/self/status'' (regular (text_of [TracerPid_label @ ''4321''] @ ''Uid:''))"
      and filename = "''/proc/self/status''"
      and f = "regular (text_of [TracerPid_label @ ''4321''] @ ''Uid:'')"
      and ls = "[]" and line = TracerPid_label and v = "''4321''" and rest = "''Uid:''"
      and lim = glibc_limits]
  by (simp add: only_file_def regular_def glibc_limits_def fits_def TracerPid_label_def
      text_of_def newline_def NUL_def)

text \<open>
  Claim C10, amended.  When every line before it fits the buffer and does not begin
  with the prefix, a line that is at least \<^verbatim>\<open>LINE_MAX\<close> - 1 characters long, or a last
  line without a newline (the stream ending in end-of-file), makes the assertion of
  line 155 fail: the process aborts instead of printing a diagnostic and exiting.
  Here \<open>l\<close> is that line, or its first characters.
\<close>

theorem proc_string_aborts_on_unreadable_line:
  assumes "fs filename = Some f"
    and "bytes f = text_of ls @ l @ rest"
    and "\<forall>x\<in>set ls. fits (LINE_MAX lim) x \<and> \<not> prefix line x"
    and "newline \<notin> set l"
    and "(l \<noteq> [] \<and> rest = [] \<and> read_errno f = 0) \<or> LINE_MAX lim - 1 \<le> length l"
  shows "proc_string lim fs filename line = Inl (Assert_failed ''s != NULL'')"
proof -
  have "find (prefix line) ls = None"
    using assms(3) by (simp add: find_none)
  moreover have "\<forall>x\<in>set ls. fits (LINE_MAX lim) x"
    using assms(3) by auto
  ultimately have eq: "proc_string lim fs filename line
      = proc_string_loop (LINE_MAX lim) filename line (f\<lparr>bytes := l @ rest\<rparr>)"
    using proc_string_text [where fs = fs and filename = filename and f = f and ls = ls
        and rest = "l @ rest" and lim = lim and line = line] assms(1,2)
    by simp
  have "set (take (LINE_MAX lim - 1) (l @ rest)) \<subseteq> set l"
    using assms(5) by (auto dest: in_set_takeD)
  then have nl: "newline \<notin> set (take (LINE_MAX lim - 1) (bytes (f\<lparr>bytes := l @ rest\<rparr>)))"
    using assms(4) by auto
  have len: "LINE_MAX lim - 1 \<le> length (bytes (f\<lparr>bytes := l @ rest\<rparr>))
      \<or> (bytes (f\<lparr>bytes := l @ rest\<rparr>) \<noteq> [] \<and> read_errno (f\<lparr>bytes := l @ rest\<rparr>) = 0)"
    using assms(5) by auto
  show ?thesis
    unfolding eq by (rule proc_string_loop_no_newline [OF nl len])
qed

theorem proc_string_aborts_on_unreadable_line_witness:
  "proc_string glibc_limits
     (only_file ''/proc/self/status''
        (regular (text_of [''Name:'' @ [CHR 0x09] @ ''a''] @ TracerPid_label @ ''4321'')))
     ''/proc/self/status'' TracerPid_label
     = Inl (Assert_failed ''s != NULL'')"
  using proc_string_aborts_on_unreadable_line
    [of "only_file ''/proc/self/status''
          (regular (text_of [''Name:'' @ [CHR 0x09] @ ''a''] @ TracerPid_label @ ''4321''))"
        "''/proc/self/status''"
        "regular (text_of [''Name:'' @ [CHR 0x09] @ ''a''] @ TracerPid_label @ ''4321'')"
        "[''Name:'' @ [CHR 0x09] @ ''a'']" "TracerPid_label @ ''4321''" "[]"
        glibc_limits TracerPid_label]
  by (simp add: only_file_def regular_def glibc_limits_def fits_def TracerPid_label_def
      newline_def NUL_def)

text \<open>
  Claim C2.  Whatever \<^verbatim>\<open>tracer\<close> holds, after \<^verbatim>\<open>cleanup\<close> it is 0; the call has stored the
  0 and then called \<^verbatim>\<open>kill\<close> with \<^verbatim>\<open>SIGCONT\<close> once, or done neither when \<^verbatim>\<open>tracer\<close> was
  already 0; a second \<^verbatim>\<open>cleanup\<close> just returns.  So two calls in succession send at most
  one \<^verbatim>\<open>SIGCONT\<close>.
\<close>

theorem cleanup_idempotent:
  "tracer (snd (cleanup w)) = 0
   \<and> events (snd (cleanup w)) =
       events w @ (if tracer w = 0 then [] else [Store_tracer 0, Kill (tracer w) SIGCONT])
   \<and> cleanup (snd (cleanup w)) = (Inr (), snd (cleanup w))
   \<and> signals_sent SIGCONT (events (snd (cleanup (snd (cleanup w)))))
       \<le> signals_sent SIGCONT (events w) + 1"
proof -
  have t: "tracer (snd (cleanup w)) = 0"
    by (simp add: cleanup_def assert_0_def and_then_def lib_call_def log_def Let_def
        split: list.splits)
  have e: "events (snd (cleanup w)) =
       events w @ (if tracer w = 0 then [] else [Store_tracer 0, Kill (tracer w) SIGCONT])"
    by (simp add: cleanup_def assert_0_def and_then_def lib_call_def log_def Let_def
        split: list.splits)
  have again: "cleanup (snd (cleanup w)) = (Inr (), snd (cleanup w))"
    using t by (simp add: cleanup_def [of "snd (cleanup w)"])
  show ?thesis
    using t e again by (simp add: signals_sent_def)
qed

text \<open>
  Claim C8.  \<^verbatim>\<open>standalone\<close> is set exactly for the arguments \<^verbatim>\<open>-s\<close> alone, the traced
  mode is chosen exactly when there is no argument, and every other command line fails
  the assertion of line 266 before anything else is done.  In standalone mode the
  tracer is not looked up.
\<close>

theorem main_accepts_only_s:
  "(main_args argv = Inr True \<longleftrightarrow> (\<exists>prog. argv = [prog, ''-s'']))
   \<and> (main_args argv = Inr False \<longleftrightarrow> (\<exists>prog. argv = [prog]))
   \<and> ((\<forall>prog. argv \<noteq> [prog, ''-s''] \<and> argv \<noteq> [prog])
        \<longrightarrow> main lim argv w = (Inl (Assert_failed ''argc == 1''), w\<lparr>tracer := 0, events := []\<rparr>))
   \<and> main_tracer lim True w = (Inr (), w)"
proof -
  have two: "length argv = 2 \<and> argv ! 1 = ''-s'' \<longleftrightarrow> (\<exists>prog. argv = [prog, ''-s''])"
    by (cases argv; cases "tl argv"; cases "tl (tl argv)") auto
  have one: "length argv = 1 \<longleftrightarrow> (\<exists>prog. argv = [prog])"
    by (cases argv) auto
  have a: "main_args argv = Inr True \<longleftrightarrow> (\<exists>prog. argv = [prog, ''-s''])"
    using two by (auto simp: main_args_def)
  have b: "main_args argv = Inr False \<longleftrightarrow> (\<exists>prog. argv = [prog])"
    using two one by (auto simp: main_args_def)
  have c: "(\<forall>prog. argv \<noteq> [prog, ''-s''] \<and> argv \<noteq> [prog])
        \<longrightarrow> main_args argv = Inl (Assert_failed ''argc == 1'')"
    using two one by (auto simp: main_args_def)
  show ?thesis
    using a b c by (simp add: main_def main_tracer_def)
qed

theorem main_accepts_only_s_witness:
  "main glibc_limits [''watchthreads-reorder'', ''-x''] idle_world
     = (Inl (Assert_failed ''argc == 1''), idle_world)
   \<and> main glibc_limits [''watchthreads-reorder'', ''-s'', ''-s''] idle_world
     = (Inl (Assert_failed ''argc == 1''), idle_world)"
  using main_accepts_only_s [of "[''watchthreads-reorder'', ''-x'']" glibc_limits idle_world]
    main_accepts_only_s [of "[''watchthreads-reorder'', ''-s'', ''-s'']" glibc_limits idle_world]
  by (simp add: idle_world_def)

text \<open>
  Claim C6, as stated: under permanent contention \<^verbatim>\<open>timed_mutex_lock\<close> fails exactly at
  the timeout boundary, not earlier.  The loop compares whole seconds only (line 80),
  so the main thread, whose budget is 10 seconds, gives up 9.000000001 seconds after it
  started when it started at the end of a second.
\<close>

theorem timed_mutex_lock_early_counterexample:
  "elapsed_ns \<lparr>tv_sec = 100, tv_nsec = 999999999\<rparr> \<lparr>tv_sec = 110, tv_nsec = 0\<rparr>
     < 10 * 1000000000
   \<and> TIMEOUT idle_world = 10
   \<and> fst (timed_mutex_lock gdbstop_mutex
        (idle_world\<lparr>clock_q := [(0, \<lparr>tv_sec = 100, tv_nsec = 999999999\<rparr>),
                                  (0, \<lparr>tv_sec = 110, tv_nsec = 0\<rparr>)],
                     trylock_q := [EBUSY]\<rparr>))
     = Inl (Exit_failure Timed_out_lock)"
  by (simp add: elapsed_ns_def TIMEOUT_def idle_world_def timed_mutex_lock_def
      timed_mutex_lock_loop.simps EBUSY_def)

text \<open>
  Claim C6, amended.  The lock is never released: every \<^verbatim>\<open>pthread_mutex_trylock\<close> answers
  \<^verbatim>\<open>EBUSY\<close>.  Then \<^verbatim>\<open>timed_mutex_lock\<close> keeps polling while the seconds of the clock are
  less than \<^verbatim>\<open>TIMEOUT\<close> above the seconds read at entry (the readings \<open>early\<close>), and at
  the first reading that is not (\<open>late\<close>) it prints the diagnostic of line 82 and exits
  with failure, having asked for nothing more.  The readings are 64-bit \<^verbatim>\<open>time_t\<close>
  values, none before the one at entry, and the last difference does not overflow.
  \<^verbatim>\<open>TIMEOUT\<close> is 10 for the main thread and 15 for any other.
\<close>

theorem timed_mutex_lock_times_out:
  assumes "clock_q w = (0, start) # map (Pair 0) (early @ [late]) @ cq"
    and "trylock_q w = replicate (length early + 1) EBUSY @ tq"
    and "\<forall>t\<in>set early. sint (tv_sec start) \<le> sint (tv_sec t)
           \<and> sint (tv_sec t) - sint (tv_sec start) < TIMEOUT w"
    and "TIMEOUT w \<le> sint (tv_sec late) - sint (tv_sec start)"
    and "sint (tv_sec late) - sint (tv_sec start) < 2 ^ 63"
  shows "timed_mutex_lock mutex w =
           (Inl (Exit_failure Timed_out_lock), w\<lparr>trylock_q := tq, clock_q := cq\<rparr>)
         \<and> TIMEOUT w = (if gettid w = getpid w then 10 else 15)"
proof -
  have budget: "0 < TIMEOUT w" "TIMEOUT w \<le> 15"
    by (simp_all add: TIMEOUT_def)
  have early: "sint (tv_sec start) \<le> sint (tv_sec t)
      \<and> sint (tv_sec t - tv_sec start) < TIMEOUT w" if "t \<in> set early" for t
  proof -
    from that assms(3) have t: "sint (tv_sec start) \<le> sint (tv_sec t)"
      "sint (tv_sec t) - sint (tv_sec start) < TIMEOUT w"
      by simp_all
    with budget have "sint (tv_sec t - tv_sec start) = sint (tv_sec t) - sint (tv_sec start)"
      by (intro sint_diff_exact) simp_all
    with t show ?thesis
      by simp
  qed
  have late: "sint (tv_sec late - tv_sec start) = sint (tv_sec late) - sint (tv_sec start)"
    using assms(4,5) budget by (intro sint_diff_exact) simp_all
  have "timed_mutex_lock mutex w
      = timed_mutex_lock_loop mutex start (w\<lparr>clock_q := map (Pair 0) (early @ [late]) @ cq\<rparr>)"
    using assms(1) by (simp add: timed_mutex_lock_def)
  also have "\<dots> = (Inl (Exit_failure Timed_out_lock),
      w\<lparr>clock_q := map (Pair 0) (early @ [late]) @ cq\<rparr>\<lparr>trylock_q := tq, clock_q := cq\<rparr>)"
  proof (intro timed_mutex_lock_loop_contended)
    show "\<forall>t\<in>set early. sint (tv_sec start) \<le> sint (tv_sec t)
           \<and> sint (tv_sec t - tv_sec start)
               < TIMEOUT (w\<lparr>clock_q := map (Pair 0) (early @ [late]) @ cq\<rparr>)"
      using early by simp
    show "sint (tv_sec start) \<le> sint (tv_sec late)"
      using assms(4) budget by linarith
    show "TIMEOUT (w\<lparr>clock_q := map (Pair 0) (early @ [late]) @ cq\<rparr>)
        \<le> sint (tv_sec late - tv_sec start)"
      using assms(4) late by simp
  qed (use assms(2) in simp_all)
  finally show ?thesis
    by (simp add: TIMEOUT_def)
qed

theorem timed_mutex_lock_times_out_witness:
  "timed_mutex_lock terminate_mutex
     (idle_world\<lparr>gettid := 5001,
        clock_q := [(0, \<lparr>tv_sec = 100, tv_nsec = 0\<rparr>), (0, \<lparr>tv_sec = 107, tv_nsec = 0\<rparr>),
                    (0, \<lparr>tv_sec = 114, tv_nsec = 999999999\<rparr>), (0, \<lparr>tv_sec = 115, tv_nsec = 0\<rparr>),
                    (0, \<lparr>tv_sec = 116, tv_nsec = 0\<rparr>)],
        trylock_q := [EBUSY, EBUSY, EBUSY, EBUSY, 0]\<rparr>)
   = (Inl (Exit_failure Timed_out_lock),
      idle_world\<lparr>gettid := 5001, clock_q := [(0, \<lparr>tv_sec = 116, tv_nsec = 0\<rparr>)],
        trylock_q := [EBUSY, 0]\<rparr>)"
  using timed_mutex_lock_times_out
    [of "idle_world\<lparr>gettid := 5001,
        clock_q := [(0, \<lparr>tv_sec = 100, tv_nsec = 0\<rparr>), (0, \<lparr>tv_sec = 107, tv_nsec = 0\<rparr>),
                    (0, \<lparr>tv_sec = 114, tv_nsec = 999999999\<rparr>), (0, \<lparr>tv_sec = 115, tv_nsec = 0\<rparr>),
                    (0, \<lparr>tv_sec = 116, tv_nsec = 0\<rparr>)],
        trylock_q := [EBUSY, EBUSY, EBUSY, EBUSY, 0]\<rparr>"
       "\<lparr>tv_sec = 100, tv_nsec = 0\<rparr>"
       "[\<lparr>tv_sec = 107, tv_nsec = 0\<rparr>, \<lparr>tv_sec = 114, tv_nsec = 999999999\<rparr>]"
       "\<lparr>tv_sec = 115, tv_nsec = 0\<rparr>"
       "[(0, \<lparr>tv_sec = 116, tv_nsec = 0\<rparr>)]"
       "[EBUSY, 0]" terminate_mutex]
  by (simp add: idle_world_def TIMEOUT_def)





end
